theory Spec2Isabelle
  imports Complex_Main
begin

section \<open>Data model\<close>

text \<open>
  The mapped class \<open>IoTMachineData\<close> of \<open>main.py\<close>, as the handlers construct it: the five
  columns they set. A Python \<open>str\<close> is modelled by a \<open>string\<close>. The type \<open>'f\<close> is the type of
  the values of the three \<open>Float\<close> columns. Where every float at hand is finite (the
  values \<open>random.uniform\<close> returns, the features of a training set) it is \<open>real\<close>: a
  finite float is modelled by the real number it denotes. Where a float parameter of a
  request can be any binary64 value, NaN included, it is the type of the cells of a
  \<open>REAL\<close> column, defined with \<open>add_data_pyfloat\<close> below. The primary key \<open>id\<close> is not set
  by any handler; the database assigns it when the object is flushed, so it is a field of
  the stored row only.
\<close>

record 'f IoTMachineData =
  machine_id :: string
  temperature :: 'f
  vibration :: 'f
  pressure :: 'f
  status :: string

text \<open>A row of the table \<open>iot_machine_data\<close>: the columns above and the column \<open>id\<close>.\<close>

record 'f iot_machine_data_row = "'f IoTMachineData" +
  row_id :: nat

text \<open>
  The two files the program keeps: the table of the SQLite database and the pickle file
  \<open>iot_maintenance_model.pkl\<close> (\<open>None\<close> while the file does not exist, otherwise its
  bytes). The rows are listed in the order of the table scan, which is the order of the
  primary key.
\<close>

record 'f state =
  iot_machine_data :: "'f iot_machine_data_row list"
  model_file :: "string option"

definition init_state :: "'f state" where
  "init_state = \<lparr>iot_machine_data = [], model_file = None\<rparr>"

text \<open>The exceptions that can leave a handler, and the JSON object a handler returns.\<close>

datatype error = ValueError | OSError | UnpicklingError | IndexError | AttributeError

type_synonym response = "(string \<times> string) list"

section \<open>The database session\<close>

text \<open>
  \<open>INSERT\<close> without a value for an integer primary key: SQLite gives the new row the
  largest key of the table plus one (the key 1 in an empty table), and the row is the last
  one of a scan. The 64-bit bound of the key and failures of the storage layer are outside
  this model.
\<close>

fun max_rowid :: "'f iot_machine_data_row list \<Rightarrow> nat" where
  "max_rowid [] = 0"
| "max_rowid (r # rows) = max (row_id r) (max_rowid rows)"

definition flush_row :: "nat \<Rightarrow> 'f IoTMachineData \<Rightarrow> 'f iot_machine_data_row" where
  "flush_row k entry =
     \<lparr>machine_id = machine_id entry, temperature = temperature entry,
      vibration = vibration entry, pressure = pressure entry, status = status entry,
      row_id = k\<rparr>"

definition sql_insert ::
  "'f IoTMachineData \<Rightarrow> 'f iot_machine_data_row list \<Rightarrow> 'f iot_machine_data_row list" where
  "sql_insert entry rows = rows @ [flush_row (Suc (max_rowid rows)) entry]"

text \<open>
  A session holds the objects added and not yet flushed, in the order of the calls of
  \<open>db.add\<close>; \<open>db.commit()\<close> inserts them in that order.
\<close>

type_synonym 'f session = "'f IoTMachineData list"

definition SessionLocal :: "'f session" where
  "SessionLocal = []"

definition db_add :: "'f IoTMachineData \<Rightarrow> 'f session \<Rightarrow> 'f session" where
  "db_add entry db = db @ [entry]"

definition db_commit :: "'f session \<Rightarrow> 'f state \<Rightarrow> 'f state" where
  "db_commit db s = s\<lparr>iot_machine_data := fold sql_insert db (iot_machine_data s)\<rparr>"

text \<open>\<open>pd.read_sql("SELECT * FROM iot_machine_data", db.bind)\<close>: every row, in scan order.\<close>

definition read_sql :: "'f state \<Rightarrow> 'f iot_machine_data_row list" where
  "read_sql s = iot_machine_data s"

section \<open>The handlers that insert records\<close>

definition add_data ::
  "string \<Rightarrow> 'f \<Rightarrow> 'f \<Rightarrow> 'f \<Rightarrow> string \<Rightarrow> 'f state \<Rightarrow> response \<times> 'f state" where
  "add_data mid t v p st s =
     (let db = SessionLocal;
          entry = \<lparr>machine_id = mid, temperature = t, vibration = v, pressure = p,
                   status = st\<rparr>;
          db = db_add entry db;
          s = db_commit db s
      in ([(''message'', ''Data added successfully'')], s))"

text \<open>
  The float parameters of \<open>add_data\<close> are not validated, so a request can carry any
  binary64 value: a finite number, an infinity or a NaN. SQLite stores a NaN bound to a
  \<open>REAL\<close> column as \<open>NULL\<close>; it stores every other float, the infinities included, as it is.
  A cell of the column is therefore \<open>NULL\<close> (\<open>None\<close>) or a float, and a read returns the cell:
  for a \<open>NULL\<close>, a missing value and not the float that was inserted. A finite float is
  the real number it denotes, so the two zeros are one value, as they are for Python's
  \<open>==\<close>.
\<close>

datatype pyfloat = Finite real | PosInf | NegInf | NaN

definition sqlite_bind :: "pyfloat \<Rightarrow> pyfloat option" where
  "sqlite_bind x = (if x = NaN then None else Some x)"

text \<open>
  \<open>add_data\<close> on a table whose cells can be \<open>NULL\<close>, for any three floats: the handler above,
  the values of the three float columns being what SQLite stores for the floats given.
\<close>

definition add_data_pyfloat ::
  "string \<Rightarrow> pyfloat \<Rightarrow> pyfloat \<Rightarrow> pyfloat \<Rightarrow> string \<Rightarrow> pyfloat option state \<Rightarrow>
   response \<times> pyfloat option state" where
  "add_data_pyfloat mid t v p st s =
     add_data mid (sqlite_bind t) (sqlite_bind v) (sqlite_bind p) st s"

text \<open>
  The literal \<open>0.08\<close> of the source is the binary64 number nearest to 8/100, which is
  5764607523034235 / 2^56; the literals 90 and 28 are exact.
\<close>

definition py_float_0_08 :: real where
  "py_float_0_08 = 5764607523034235 / 2 ^ 56"

text \<open>
  The body of the loop of \<open>simulate_data\<close>, in iteration \<open>i\<close>. The parameter \<open>uniform\<close> is
  the random source: \<open>uniform k\<close> is what the \<open>k\<close>-th call of \<open>random.uniform\<close> of this
  request returns (calls counted from 0), whatever its arguments.
\<close>

definition simulated_entry :: "string \<Rightarrow> (nat \<Rightarrow> real) \<Rightarrow> nat \<Rightarrow> real IoTMachineData" where
  "simulated_entry mid uniform i =
     (let t = uniform (3 * i);
          v = uniform (3 * i + 1);
          p = uniform (3 * i + 2);
          st = (if t > 90 \<or> v > py_float_0_08 \<or> p < 28 then ''FAIL'' else ''OK'')
      in \<lparr>machine_id = mid, temperature = t, vibration = v, pressure = p, status = st\<rparr>)"

text \<open>\<open>for _ in range(count)\<close>: \<open>n\<close> iterations are left, the next one is iteration \<open>i\<close>.\<close>

fun simulate_loop ::
  "string \<Rightarrow> (nat \<Rightarrow> real) \<Rightarrow> nat \<Rightarrow> nat \<Rightarrow> real session \<Rightarrow> real session" where
  "simulate_loop mid uniform i 0 db = db"
| "simulate_loop mid uniform i (Suc n) db =
     simulate_loop mid uniform (Suc i) n (db_add (simulated_entry mid uniform i) db)"

text \<open>Python's \<open>str\<close> of an integer, for the f-string of the confirmation.\<close>

fun str_nat :: "nat \<Rightarrow> string" where
  "str_nat n =
     (if n < 10 then [''0123456789'' ! n]
      else str_nat (n div 10) @ [''0123456789'' ! (n mod 10)])"

definition str_int :: "int \<Rightarrow> string" where
  "str_int i = (if i < 0 then CHR ''-'' # str_nat (nat (- i)) else str_nat (nat i))"

text \<open>\<open>range(count)\<close> is empty for a negative \<open>count\<close>: the loop runs \<open>nat count\<close> times.\<close>

definition simulate_data ::
  "string \<Rightarrow> int \<Rightarrow> (nat \<Rightarrow> real) \<Rightarrow> real state \<Rightarrow> response \<times> real state" where
  "simulate_data mid count uniform s =
     (let db = SessionLocal;
          db = simulate_loop mid uniform 0 (nat count) db;
          s = db_commit db s
      in ([(''message'',
            str_int count @ '' simulated IoT records added for machine '' @ mid)], s))"

section \<open>Training and prediction\<close>

text \<open>
  What the program uses of scikit-learn and pickle, as parameters. The type \<open>'m\<close> is the
  type of the fitted \<open>LogisticRegression\<close> objects: \<open>fit\<close> fits one on a feature matrix and a
  label vector (it may raise) and \<open>pickle_dumps\<close> is its pickle encoding. Such an object is
  true in a condition, since the class defines neither \<open>__bool__\<close> nor \<open>__len__\<close>. The type
  \<open>'o\<close> is the type of the objects \<open>pickle.load\<close> can return, which is whatever object the
  bytes of the file encode (the bytes \<open>N.\<close> encode \<open>None\<close>): \<open>pickle_loads\<close> is the decoder (it
  may raise), \<open>truthy\<close> is the truth value of an object in a condition (finding it
  may raise, as it does for a numpy array of several elements), and \<open>model_predict\<close> is the
  call \<open>model.predict(X)\<close> on such an object, which raises when the object has no such
  method and otherwise returns the predictions for a matrix of feature vectors.
\<close>

record ('m, 'o) library =
  fit :: "real list list \<Rightarrow> int list \<Rightarrow> error + 'm"
  pickle_dumps :: "'m \<Rightarrow> string"
  pickle_loads :: "string \<Rightarrow> error + 'o"
  truthy :: "'o \<Rightarrow> error + bool"
  model_predict :: "'o \<Rightarrow> real list list \<Rightarrow> error + int list"

text \<open>
  What can go wrong while the model file is written: nothing, \<open>open\<close> raises, or the
  write raises when \<open>k\<close> bytes have reached the file.
\<close>

datatype fault = NoFault | OpenFails | WriteFailsAfter nat

text \<open>
  \<open>with open(MODEL_FILE, "wb") as f: pickle.dump(model, f)\<close>. Opening with mode \<open>"wb"\<close>
  truncates the file before anything is written.
\<close>

definition open_wb_dump :: "fault \<Rightarrow> string \<Rightarrow> 'f state \<Rightarrow> (error + unit) \<times> 'f state" where
  "open_wb_dump io bytes s =
     (case io of
        OpenFails \<Rightarrow> (Inl OSError, s)
      | NoFault \<Rightarrow> (Inr (), s\<lparr>model_file := Some bytes\<rparr>)
      | WriteFailsAfter k \<Rightarrow>
          if k < length bytes then (Inl OSError, s\<lparr>model_file := Some (take k bytes)\<rparr>)
          else (Inr (), s\<lparr>model_file := Some bytes\<rparr>))"

text \<open>Lines 57 and 58: the feature matrix and the label vector, in the row order of the read.\<close>

definition train_X :: "real iot_machine_data_row list \<Rightarrow> real list list" where
  "train_X data = map (\<lambda>r. [temperature r, vibration r, pressure r]) data"

definition train_y :: "'f iot_machine_data_row list \<Rightarrow> int list" where
  "train_y data = map (\<lambda>x. if x = ''FAIL'' then 1 else 0) (map status data)"

definition train_model ::
  "('m, 'o) library \<Rightarrow> fault \<Rightarrow> real state \<Rightarrow> (error + 'm option) \<times> real state" where
  "train_model lib io s =
     (let data = read_sql s in
      if data = [] then (Inr None, s)
      else
        (case fit lib (train_X data) (train_y data) of
           Inl e \<Rightarrow> (Inl e, s)
         | Inr model \<Rightarrow>
             (case open_wb_dump io (pickle_dumps lib model) s of
                (Inl e, s') \<Rightarrow> (Inl e, s')
              | (Inr u, s') \<Rightarrow> (Inr (Some model), s'))))"

definition load_model :: "('m, 'o) library \<Rightarrow> 'f state \<Rightarrow> error + 'o option" where
  "load_model lib s =
     (case model_file s of
        Some bytes \<Rightarrow>
          (case pickle_loads lib bytes of Inl e \<Rightarrow> Inl e | Inr model \<Rightarrow> Inr (Some model))
      | None \<Rightarrow> Inr None)"

text \<open>
  \<open>train\<close>: what \<open>train_model\<close> returns is \<open>None\<close> or the \<open>LogisticRegression\<close> it fitted, which
  is true in a condition, so \<open>if model\<close> separates exactly these two.
\<close>

definition train ::
  "('m, 'o) library \<Rightarrow> fault \<Rightarrow> real state \<Rightarrow> (error + response) \<times> real state" where
  "train lib io s =
     (case train_model lib io s of
        (Inl e, s') \<Rightarrow> (Inl e, s')
      | (Inr (Some model), s') \<Rightarrow> (Inr [(''message'', ''Model trained successfully'')], s')
      | (Inr None, s') \<Rightarrow> (Inr [(''message'', ''No data available to train'')], s'))"

text \<open>
  \<open>predict\<close>: the condition \<open>not model\<close> holds when \<open>load_model\<close> returned \<open>None\<close> and also when
  the object it unpickled is false in a condition; only an object that is true reaches the
  call of its \<open>predict\<close>, and an exception raised while the truth value is found leaves the
  handler.
\<close>

definition predict ::
  "('m, 'o) library \<Rightarrow> real \<Rightarrow> real \<Rightarrow> real \<Rightarrow> 'f state \<Rightarrow> error + response" where
  "predict lib t v p s =
     (case load_model lib s of
        Inl e \<Rightarrow> Inl e
      | Inr None \<Rightarrow> Inr [(''error'', ''Model not trained yet'')]
      | Inr (Some model) \<Rightarrow>
          (case truthy lib model of
             Inl e \<Rightarrow> Inl e
           | Inr False \<Rightarrow> Inr [(''error'', ''Model not trained yet'')]
           | Inr True \<Rightarrow>
               (case model_predict lib model [[t, v, p]] of
                  Inl e \<Rightarrow> Inl e
                | Inr [] \<Rightarrow> Inl IndexError
                | Inr (prediction # rest) \<Rightarrow>
                    Inr [(''prediction'', if prediction = 1 then ''FAIL'' else ''OK'')])))"

section \<open>Sequences of requests\<close>

datatype request =
    AddData string real real real string
  | SimulateData string int "nat \<Rightarrow> real"
  | Train fault
  | Predict real real real

fun serve :: "('m, 'o) library \<Rightarrow> request \<Rightarrow> real state \<Rightarrow> real state" where
  "serve lib (AddData mid t v p st) s = snd (add_data mid t v p st s)"
| "serve lib (SimulateData mid count uniform) s = snd (simulate_data mid count uniform s)"
| "serve lib (Train io) s = snd (train lib io s)"
| "serve lib (Predict t v p) s = s"

definition run :: "('m, 'o) library \<Rightarrow> request list \<Rightarrow> real state \<Rightarrow> real state" where
  "run lib reqs s = fold (serve lib) reqs s"

text \<open>The records a request hands to the store, in the order it adds them.\<close>

fun inserted_by :: "request \<Rightarrow> real IoTMachineData list" where
  "inserted_by (AddData mid t v p st) =
     [\<lparr>machine_id = mid, temperature = t, vibration = v, pressure = p, status = st\<rparr>]"
| "inserted_by (SimulateData mid count uniform) =
     map (simulated_entry mid uniform) [0..<nat count]"
| "inserted_by (Train io) = []"
| "inserted_by (Predict t v p) = []"

text \<open>The invariant of the data model: every stored status is one of the two labels.\<close>

definition status_is_enum :: "'f state \<Rightarrow> bool" where
  "status_is_enum s = list_all (\<lambda>r. status r = ''OK'' \<or> status r = ''FAIL'') (read_sql s)"

fun enum_status_request :: "request \<Rightarrow> bool" where
  "enum_status_request (AddData mid t v p st) = (st = ''OK'' \<or> st = ''FAIL'')"
| "enum_status_request q = True"

section \<open>A library instance and a random source for evaluation\<close>

text \<open>
  A small instance of the library parameters, used to evaluate the handlers on concrete
  inputs: its only model is a temperature threshold, fitting rejects a label vector with
  a single class as scikit-learn does, and the pickle of a model is a fixed text. The
  objects that can be unpickled are that model (\<open>Some ()\<close>, from its pickle) and Python's
  \<open>None\<close> (\<open>None\<close>, from the bytes \<open>N.\<close>), which is false in a condition and has no method
  \<open>predict\<close>; any other bytes do not unpickle.
\<close>

definition sample_library :: "(unit, unit option) library" where
  "sample_library =
     \<lparr>fit = (\<lambda>X y. if 0 \<in> set y \<and> 1 \<in> set y then Inr () else Inl ValueError),
      pickle_dumps = (\<lambda>model. ''new''),
      pickle_loads = (\<lambda>bytes. if bytes = ''new'' then Inr (Some ())
                              else if bytes = ''N.'' then Inr None
                              else Inl UnpicklingError),
      truthy = (\<lambda>obj. Inr (obj \<noteq> None)),
      model_predict = (\<lambda>obj X. case obj of
                          None \<Rightarrow> Inl AttributeError
                        | Some model \<Rightarrow> Inr (map (\<lambda>x. if hd x > 90 then 1 else 0) X))\<rparr>"

definition sample_uniform :: "nat \<Rightarrow> real" where
  "sample_uniform k = [95, 5 / 100, 30, 70, 2 / 100, 35] ! (k mod 6)"

definition boundary_uniform :: "nat \<Rightarrow> real" where
  "boundary_uniform k = [90, py_float_0_08, 28] ! (k mod 3)"

text \<open>
  A state reached from the empty store: two simulated records, one of each label, and a
  training run that wrote the model file.
\<close>

definition trained_state :: "real state" where
  "trained_state =
     run sample_library [SimulateData ''m1'' 2 sample_uniform, Train NoFault] init_state"

section \<open>Facts about the store\<close>

lemma fold_sql_insert_length:
  "length (fold sql_insert db rows) = length rows + length db"
  by (induction db arbitrary: rows) (simp_all add: sql_insert_def)
lemma max_rowid_append: "max_rowid (xs @ ys) = max (max_rowid xs) (max_rowid ys)"
  by (induction xs) simp_all

lemma row_id_le_max_rowid: "r \<in> set rows \<Longrightarrow> row_id r \<le> max_rowid rows"
  by (induction rows) auto

lemma simulate_loop_eq:
  "simulate_loop mid uniform i n db = db @ map (simulated_entry mid uniform) [i..<i + n]"
proof (induction n arbitrary: i db)
  case 0
  then show ?case by simp
next
  case (Suc n)
  have "[i..<i + Suc n] = i # [Suc i..<Suc i + n]"
    by (simp add: upt_conv_Cons)
  then show ?case by (simp add: Suc db_add_def)
qed

lemma truncate_flush_row: "IoTMachineData.truncate (flush_row k e) = e"
  by (simp add: flush_row_def IoTMachineData.truncate_def)

lemma row_id_flush_row: "row_id (flush_row k e) = k"
  by (simp add: flush_row_def)

lemma fold_sql_insert_truncate:
  "map IoTMachineData.truncate (fold sql_insert db rows) = map IoTMachineData.truncate rows @ db"
  by (induction db arbitrary: rows) (simp_all add: sql_insert_def truncate_flush_row)

lemma fold_sql_insert_prefix:
  "take (length rows) (fold sql_insert db rows) = rows"
proof (induction db arbitrary: rows)
  case Nil
  then show ?case by simp
next
  case (Cons e db)
  define rows' where "rows' = sql_insert e rows"
  have l: "length rows' = Suc (length rows)" and t: "take (length rows) rows' = rows"
    by (simp_all add: rows'_def sql_insert_def)
  have "take (length rows') (fold sql_insert db rows') = rows'"
    by (rule Cons.IH)
  then have "take (length rows) (take (length rows') (fold sql_insert db rows')) = rows"
    using t by simp
  then show ?case by (simp add: l rows'_def [symmetric])
qed

lemma max_rowid_consecutive:
  "map row_id rows = [1..<Suc (length rows)] \<Longrightarrow> max_rowid rows = length rows"
proof (induction rows rule: rev_induct)
  case Nil
  then show ?case by simp
next
  case (snoc r rows)
  from snoc.prems have "map row_id rows = [1..<Suc (length rows)]" and "row_id r = Suc (length rows)"
    by simp_all
  with snoc.IH show ?case by (simp add: max_rowid_append)
qed

lemma fold_sql_insert_ids:
  "map row_id rows = [1..<Suc (length rows)] \<Longrightarrow>
   map row_id (fold sql_insert db rows) = [1..<Suc (length rows + length db)]"
proof (induction db arbitrary: rows)
  case Nil
  then show ?case by simp
next
  case (Cons e db)
  have "map row_id (sql_insert e rows) = [1..<Suc (length (sql_insert e rows))]"
    using Cons.prems by (simp add: sql_insert_def row_id_flush_row max_rowid_consecutive)
  from Cons.IH [OF this] show ?case by (simp add: sql_insert_def)
qed

lemma fold_sql_insert_sorted:
  "sorted_wrt (<) (map row_id rows) \<Longrightarrow> sorted_wrt (<) (map row_id (fold sql_insert db rows))"
proof (induction db arbitrary: rows)
  case Nil
  then show ?case by simp
next
  case (Cons e db)
  have "sorted_wrt (<) (map row_id (sql_insert e rows))"
    using Cons.prems row_id_le_max_rowid [of _ rows]
    by (auto simp: sql_insert_def row_id_flush_row sorted_wrt_append less_Suc_eq_le)
  from Cons.IH [OF this] show ?case by simp
qed

lemma train_keeps_table: "iot_machine_data (snd (train lib io s)) = iot_machine_data s"
  by (auto simp: train_def train_model_def open_wb_dump_def Let_def
      split: sum.splits option.splits fault.splits prod.splits if_splits)

lemma read_sql_add_data:
  "read_sql (snd (add_data mid t v p st s)) =
   sql_insert \<lparr>machine_id = mid, temperature = t, vibration = v, pressure = p, status = st\<rparr>
     (read_sql s)"
  by (simp add: add_data_def read_sql_def db_commit_def db_add_def SessionLocal_def)

lemma read_sql_simulate_data:
  "read_sql (snd (simulate_data mid count uniform s)) =
   fold sql_insert (map (simulated_entry mid uniform) [0..<nat count]) (read_sql s)"
  by (simp add: simulate_data_def read_sql_def db_commit_def SessionLocal_def simulate_loop_eq)

lemma read_sql_serve:
  "read_sql (serve lib q s) = fold sql_insert (inserted_by q) (read_sql s)"
proof (cases q)
  case (AddData mid t v p st)
  then show ?thesis by (simp add: read_sql_add_data)
next
  case (SimulateData mid count uniform)
  then show ?thesis by (simp add: read_sql_simulate_data)
next
  case (Train io)
  then show ?thesis by (simp add: read_sql_def train_keeps_table)
next
  case (Predict t v p)
  then show ?thesis by simp
qed

lemma read_sql_run:
  "read_sql (run lib reqs s) = fold sql_insert (concat (map inserted_by reqs)) (read_sql s)"
  unfolding run_def
  by (induction reqs arbitrary: s) (simp_all add: read_sql_serve)

section \<open>Evaluation of the sample runs\<close>

lemma read_sql_init: "read_sql init_state = []"
  by (simp add: read_sql_def init_state_def)

lemma new_rows_truncate:
  "map IoTMachineData.truncate (drop (length rows) (fold sql_insert db rows)) = db"
proof -
  have "drop (length rows) (map IoTMachineData.truncate (fold sql_insert db rows)) = db"
    by (simp add: fold_sql_insert_truncate)
  then show ?thesis by (simp add: drop_map)
qed

lemma truncate_fields:
  "machine_id (IoTMachineData.truncate r) = machine_id r"
  "temperature (IoTMachineData.truncate r) = temperature r"
  "vibration (IoTMachineData.truncate r) = vibration r"
  "pressure (IoTMachineData.truncate r) = pressure r"
  "status (IoTMachineData.truncate r) = status r"
  by (simp_all add: IoTMachineData.truncate_def)

lemma new_rows_machine_id:
  "map machine_id (drop (length rows) (fold sql_insert db rows)) = map machine_id db"
proof -
  have "map machine_id (map IoTMachineData.truncate (drop (length rows) (fold sql_insert db rows)))
        = map machine_id db"
    by (simp only: new_rows_truncate)
  then show ?thesis by (simp add: truncate_fields o_def)
qed

lemma fold_sql_insert_status:
  "map status (fold sql_insert db rows) = map status rows @ map status db"
proof -
  have "map status (map IoTMachineData.truncate (fold sql_insert db rows))
        = map status (map IoTMachineData.truncate rows @ db)"
    by (simp only: fold_sql_insert_truncate)
  then show ?thesis by (simp add: truncate_fields o_def)
qed

lemma simulated_entry_status:
  "status (simulated_entry mid uniform i) =
     (if 90 < temperature (simulated_entry mid uniform i) \<or>
         py_float_0_08 < vibration (simulated_entry mid uniform i) \<or>
         pressure (simulated_entry mid uniform i) < 28
      then ''FAIL'' else ''OK'')"
  by (simp add: simulated_entry_def Let_def)

lemma simulated_entry_machine_id: "machine_id (simulated_entry mid uniform i) = mid"
  by (simp add: simulated_entry_def Let_def)

lemma upt_0_2: "[0..<2] = [0, Suc 0]"
  by (simp add: upt_conv_Cons)

lemma sample_entry_0:
  "simulated_entry mid sample_uniform 0 =
     \<lparr>machine_id = mid, temperature = 95, vibration = 5 / 100, pressure = 30,
      status = ''FAIL''\<rparr>"
  by (simp add: simulated_entry_def sample_uniform_def)

lemma sample_entry_1:
  "simulated_entry mid sample_uniform (Suc 0) =
     \<lparr>machine_id = mid, temperature = 70, vibration = 2 / 100, pressure = 35,
      status = ''OK''\<rparr>"
  by (simp add: simulated_entry_def sample_uniform_def py_float_0_08_def)

lemma boundary_entry:
  "simulated_entry mid boundary_uniform 0 =
     \<lparr>machine_id = mid, temperature = 90, vibration = py_float_0_08, pressure = 28,
      status = ''OK''\<rparr>"
  by (simp add: simulated_entry_def boundary_uniform_def)

lemma sample_rows:
  "read_sql (snd (simulate_data mid 2 sample_uniform init_state)) =
     [\<lparr>machine_id = mid, temperature = 95, vibration = 5 / 100, pressure = 30,
       status = ''FAIL'', row_id = 1\<rparr>,
      \<lparr>machine_id = mid, temperature = 70, vibration = 2 / 100, pressure = 35,
       status = ''OK'', row_id = 2\<rparr>]"
  by (simp add: read_sql_simulate_data upt_0_2 sample_entry_0 sample_entry_1
      sql_insert_def flush_row_def read_sql_init)

lemma boundary_rows:
  "read_sql (snd (simulate_data mid 1 boundary_uniform init_state)) =
     [\<lparr>machine_id = mid, temperature = 90, vibration = py_float_0_08, pressure = 28,
       status = ''OK'', row_id = 1\<rparr>]"
  by (simp add: read_sql_simulate_data boundary_entry sql_insert_def flush_row_def read_sql_init)

section \<open>The status invariant and the sample states\<close>

lemma status_is_enum_iff:
  "status_is_enum s \<longleftrightarrow> set (map status (read_sql s)) \<subseteq> {''OK'', ''FAIL''}"
  by (auto simp: status_is_enum_def list_all_iff)

lemma simulated_entry_status_enum:
  "status (simulated_entry mid uniform i) = ''OK'' \<or> status (simulated_entry mid uniform i) = ''FAIL''"
  by (simp add: simulated_entry_def Let_def)

lemma inserted_by_status_enum:
  "enum_status_request q \<Longrightarrow> set (map status (inserted_by q)) \<subseteq> {''OK'', ''FAIL''}"
  using simulated_entry_status_enum by (cases q) auto

lemma inserted_by_all_status_enum:
  "list_all enum_status_request reqs \<Longrightarrow>
   set (map status (concat (map inserted_by reqs))) \<subseteq> {''OK'', ''FAIL''}"
proof (induction reqs)
  case Nil
  then show ?case by simp
next
  case (Cons q reqs)
  then show ?case using inserted_by_status_enum [of q] by auto
qed

text \<open>
  The handlers and the invariant: simulate_data preserves it; add_data stores the status
  string it is given, so it preserves the invariant exactly when that string is one of the
  two labels; and every state reached from the empty store by requests whose add_data
  statuses are labels satisfies it.
\<close>

lemma status_enum_preserved:
  "(status_is_enum s \<longrightarrow>
      status_is_enum (snd (simulate_data mid count uniform s)) \<and>
      (status_is_enum (snd (add_data mid t v p st s)) \<longleftrightarrow> st = ''OK'' \<or> st = ''FAIL'')) \<and>
   (list_all enum_status_request reqs \<longrightarrow> status_is_enum (run lib reqs init_state))"
proof (intro conjI impI)
  assume inv: "status_is_enum s"
  have "set (map status (map (simulated_entry mid uniform) [0..<nat count])) \<subseteq> {''OK'', ''FAIL''}"
    using simulated_entry_status_enum [of mid uniform] by auto
  with inv show "status_is_enum (snd (simulate_data mid count uniform s))"
    by (simp add: status_is_enum_iff read_sql_simulate_data fold_sql_insert_status)
  show "status_is_enum (snd (add_data mid t v p st s)) \<longleftrightarrow> st = ''OK'' \<or> st = ''FAIL''"
    using inv
    by (simp add: status_is_enum_iff read_sql_add_data sql_insert_def flush_row_def)
next
  assume "list_all enum_status_request reqs"
  then have "set (map status (concat (map inserted_by reqs))) \<subseteq> {''OK'', ''FAIL''}"
    by (rule inserted_by_all_status_enum)
  then show "status_is_enum (run lib reqs init_state)"
    by (simp add: status_is_enum_iff read_sql_run fold_sql_insert_status read_sql_init)
qed

lemma status_enum_preserved_example:
  "status_is_enum (init_state :: real state) \<and>
   status_is_enum (snd (simulate_data ''m1'' 2 sample_uniform init_state)) \<and>
   status_is_enum (snd (add_data ''m1'' 75 (2 / 100) 30 ''FAIL'' (init_state :: real state))) \<and>
   \<not> status_is_enum (snd (add_data ''1'' 75 (2 / 100) 30 ''fail'' (init_state :: real state))) \<and>
   list_all enum_status_request
     [SimulateData ''m1'' 2 sample_uniform, AddData ''1'' 75 (2 / 100) 30 ''OK'', Train NoFault] \<and>
   status_is_enum (run sample_library
     [SimulateData ''m1'' 2 sample_uniform, AddData ''1'' 75 (2 / 100) 30 ''OK'', Train NoFault]
     init_state)"
proof -
  have h: "status_is_enum (init_state :: real state)"
    by (simp add: status_is_enum_def read_sql_init)
  have l: "list_all enum_status_request
     [SimulateData ''m1'' 2 sample_uniform, AddData ''1'' 75 (2 / 100) 30 ''OK'', Train NoFault]"
    by simp
  show ?thesis
    using h l
      status_enum_preserved [where s = init_state and mid = "''m1''" and count = 2
        and uniform = sample_uniform and t = 75 and v = "2 / 100" and p = 30
        and st = "''FAIL''" and lib = sample_library and reqs =
        "[SimulateData ''m1'' 2 sample_uniform, AddData ''1'' 75 (2 / 100) 30 ''OK'', Train NoFault]"]
      status_enum_preserved [where s = init_state and mid = "''1''" and count = 2
        and uniform = sample_uniform and t = 75 and v = "2 / 100" and p = 30
        and st = "''fail''" and lib = sample_library and reqs = "[]"]
    by simp
qed

lemma snd_simulate_data:
  "snd (simulate_data mid count uniform s) =
     s\<lparr>iot_machine_data :=
          fold sql_insert (map (simulated_entry mid uniform) [0..<nat count]) (iot_machine_data s)\<rparr>"
  by (simp add: simulate_data_def db_commit_def SessionLocal_def simulate_loop_eq)

lemma snd_add_data:
  "snd (add_data mid t v p st s) =
     s\<lparr>iot_machine_data :=
          sql_insert \<lparr>machine_id = mid, temperature = t, vibration = v, pressure = p,
                      status = st\<rparr> (iot_machine_data s)\<rparr>"
  by (simp add: add_data_def db_commit_def db_add_def SessionLocal_def)

lemma sample_state:
  "snd (simulate_data ''m1'' 2 sample_uniform init_state) =
     \<lparr>iot_machine_data =
        [\<lparr>machine_id = ''m1'', temperature = 95, vibration = 5 / 100, pressure = 30,
          status = ''FAIL'', row_id = 1\<rparr>,
         \<lparr>machine_id = ''m1'', temperature = 70, vibration = 2 / 100, pressure = 35,
          status = ''OK'', row_id = 2\<rparr>],
      model_file = None\<rparr>"
  by (simp add: snd_simulate_data upt_0_2 sample_entry_0 sample_entry_1 sql_insert_def
      flush_row_def init_state_def)

lemma trained_state_eq:
  "trained_state =
     \<lparr>iot_machine_data =
        [\<lparr>machine_id = ''m1'', temperature = 95, vibration = 5 / 100, pressure = 30,
          status = ''FAIL'', row_id = 1\<rparr>,
         \<lparr>machine_id = ''m1'', temperature = 70, vibration = 2 / 100, pressure = 35,
          status = ''OK'', row_id = 2\<rparr>],
      model_file = Some ''new''\<rparr>"
  by (simp add: trained_state_def run_def sample_state train_def train_model_def read_sql_def
      train_X_def train_y_def sample_library_def open_wb_dump_def)

lemma all_fail_state:
  "run lib
     [AddData ''1'' 95 (9 / 100) 20 ''FAIL'', AddData ''1'' 96 (1 / 100) 35 ''FAIL''] init_state =
   \<lparr>iot_machine_data =
      [\<lparr>machine_id = ''1'', temperature = 95, vibration = 9 / 100, pressure = 20,
        status = ''FAIL'', row_id = 1\<rparr>,
       \<lparr>machine_id = ''1'', temperature = 96, vibration = 1 / 100, pressure = 35,
        status = ''FAIL'', row_id = 2\<rparr>],
    model_file = None\<rparr>"
  by (simp add: run_def snd_add_data sql_insert_def flush_row_def init_state_def)

text \<open>
  The row add_data appends holds the five values it was given, whatever the type of the
  float columns, and the rows before it are the rows the store held.
\<close>

lemma add_data_last_row:
  "butlast (read_sql (snd (add_data mid t v p st s))) = read_sql s"
  "machine_id (last (read_sql (snd (add_data mid t v p st s)))) = mid"
  "temperature (last (read_sql (snd (add_data mid t v p st s)))) = t"
  "vibration (last (read_sql (snd (add_data mid t v p st s)))) = v"
  "pressure (last (read_sql (snd (add_data mid t v p st s)))) = p"
  "status (last (read_sql (snd (add_data mid t v p st s)))) = st"
  by (simp_all add: read_sql_add_data sql_insert_def flush_row_def)

text \<open>
  When predict answers "not trained": the model file is absent, or it unpickles to an
  object that is false in a condition. A file that holds the pickle of \<open>None\<close> is such a
  file.
\<close>

lemma predict_answers_not_trained_iff:
  "(predict lib t v p s = Inr [(''error'', ''Model not trained yet'')]) =
   (model_file s = None \<or>
    (\<exists>bytes obj. model_file s = Some bytes \<and> pickle_loads lib bytes = Inr obj \<and>
                 truthy lib obj = Inr False))"
  by (auto simp: predict_def load_model_def
      split: option.splits sum.splits list.splits bool.splits)

lemma predict_falsy_object:
  "predict sample_library 95 (9 / 100) 20 (trained_state\<lparr>model_file := Some ''N.''\<rparr>) =
     Inr [(''error'', ''Model not trained yet'')]"
  by (simp add: predict_def load_model_def sample_library_def)

section \<open>The claims\<close>

text \<open>
  C3. Reading all stored records after N inserts returns exactly N records, in insertion
  order, with strictly increasing ids. From the empty store, after any sequence of
  requests, the rows read are as many as the records the requests inserted, their columns
  are those records in the order of insertion, and their ids are 1, 2, ..., N, hence
  strictly increasing.
\<close>

theorem read_all_after_inserts:
  "let rows = read_sql (run lib reqs init_state);
       entries = concat (map inserted_by reqs)
   in length rows = length entries \<and>
      map IoTMachineData.truncate rows = entries \<and>
      map row_id rows = [1..<Suc (length entries)] \<and>
      sorted_wrt (<) (map row_id rows)"
proof -
  have e: "read_sql init_state = []"
    by (simp add: read_sql_def init_state_def)
  have rows: "read_sql (run lib reqs init_state) = fold sql_insert (concat (map inserted_by reqs)) []"
    by (simp add: read_sql_run e)
  have len: "length (fold sql_insert (concat (map inserted_by reqs)) []) = length (concat (map inserted_by reqs))"
    by (simp add: fold_sql_insert_length)
  have ent: "map IoTMachineData.truncate (fold sql_insert (concat (map inserted_by reqs)) []) = concat (map inserted_by reqs)"
    by (simp add: fold_sql_insert_truncate)
  have ids: "map row_id (fold sql_insert (concat (map inserted_by reqs)) []) = [1..<Suc (length (concat (map inserted_by reqs)))]"
    using fold_sql_insert_ids [of "[]" "concat (map inserted_by reqs)"] by simp
  have srt: "sorted_wrt (<) (map row_id (fold sql_insert (concat (map inserted_by reqs)) []))"
    by (rule fold_sql_insert_sorted) simp
  show ?thesis
    unfolding Let_def rows using len ent ids srt by simp
qed

text \<open>
  C5. Calling train() when the record store is empty returns the "no data available"
  outcome as a normal result, not an exception, and leaves the state, the model file
  included, as it was.
\<close>

theorem train_empty_store:
  "read_sql s = [] \<Longrightarrow>
   train lib io s = (Inr [(''message'', ''No data available to train'')], s)"
  by (simp add: train_def train_model_def)

theorem train_empty_store_witness:
  "read_sql \<lparr>iot_machine_data = [], model_file = Some ''old''\<rparr> = [] \<and>
   train sample_library NoFault \<lparr>iot_machine_data = [], model_file = Some ''old''\<rparr> =
     (Inr [(''message'', ''No data available to train'')],
      \<lparr>iot_machine_data = [], model_file = Some ''old''\<rparr>)"
proof -
  have h: "read_sql \<lparr>iot_machine_data = [], model_file = Some ''old''\<rparr> = []"
    by (simp add: read_sql_def)
  show ?thesis
    using h train_empty_store [OF h, of sample_library NoFault] by simp
qed

text \<open>
  C6. Calling predict when no persisted model exists (the model file is absent) returns
  the "not trained" result, for every input and whatever the store holds; it is a normal
  result, so nothing is raised.
\<close>

theorem predict_not_trained:
  "model_file s = None \<Longrightarrow>
   predict lib t v p s = Inr [(''error'', ''Model not trained yet'')]"
  by (simp add: predict_def load_model_def)

theorem predict_not_trained_witness:
  "model_file (snd (simulate_data ''m1'' 2 sample_uniform init_state)) = None \<and>
   predict sample_library 95 (9 / 100) 20 (snd (simulate_data ''m1'' 2 sample_uniform init_state)) =
     Inr [(''error'', ''Model not trained yet'')]"
proof -
  have h: "model_file (snd (simulate_data ''m1'' 2 sample_uniform init_state)) = None"
    by (simp add: sample_state)
  show ?thesis
    using h predict_not_trained [OF h, of sample_library 95 "9 / 100" 20] by simp
qed

text \<open>
  C7, as amended. Inserting a record with explicit field values through add_data and
  reading the store back yields, as the last row, a record with the same machine_id and
  status (any status string, FAIL included), and with the same temperature, vibration
  and pressure except for a value that is NaN: each of the three fields reads back as the
  float given exactly when that float is not a NaN, and as a missing value exactly when
  it is one. The rows before the last are the rows the store held.
\<close>

theorem add_data_round_trip:
  "let rows = read_sql (snd (add_data_pyfloat mid t v p st s)); r = last rows
   in butlast rows = read_sql s \<and>
      machine_id r = mid \<and> status r = st \<and>
      (temperature r = Some t) = (t \<noteq> NaN) \<and> (temperature r = None) = (t = NaN) \<and>
      (vibration r = Some v) = (v \<noteq> NaN) \<and> (vibration r = None) = (v = NaN) \<and>
      (pressure r = Some p) = (p \<noteq> NaN) \<and> (pressure r = None) = (p = NaN)"
  by (simp add: add_data_pyfloat_def add_data_last_row sqlite_bind_def)

text \<open>
  C7 as stated fails for a NaN: add_data accepts the temperature NaN, the store holds NULL
  for it, and the record read back has no temperature, while its other four fields are
  the values given.
\<close>

theorem add_data_nan_not_read_back:
  "let r = last (read_sql (snd (add_data_pyfloat ''1'' NaN (Finite (2 / 100)) PosInf ''FAIL''
                                  init_state)))
   in machine_id r = ''1'' \<and> vibration r = Some (Finite (2 / 100)) \<and>
      pressure r = Some PosInf \<and> status r = ''FAIL'' \<and>
      temperature r = None \<and> temperature r \<noteq> Some NaN"
  by (simp add: add_data_pyfloat_def add_data_last_row sqlite_bind_def)

text \<open>
  C1. For every record generated by simulate_data, its status is FAIL if and only if
  temperature > 90 or vibration > 0.08 or pressure < 28, whatever the random source
  returns and whatever the store held; the status is OK otherwise, that is exactly when
  temperature <= 90, vibration <= 0.08 and pressure >= 28, so a record at the exact
  boundaries (temperature = 90, vibration = 0.08, pressure = 28) is OK. The generated
  records are the rows read after the call beyond those read before it.
\<close>

theorem simulate_data_status_rule:
  "\<forall>r \<in> set (drop (length (read_sql s)) (read_sql (snd (simulate_data mid count uniform s)))).
     (status r = ''FAIL'' \<longleftrightarrow>
        90 < temperature r \<or> py_float_0_08 < vibration r \<or> pressure r < 28) \<and>
     (status r = ''OK'' \<longleftrightarrow>
        temperature r \<le> 90 \<and> vibration r \<le> py_float_0_08 \<and> 28 \<le> pressure r)"
proof
  fix r
  let ?db = "map (simulated_entry mid uniform) [0..<nat count]"
  assume "r \<in> set (drop (length (read_sql s)) (read_sql (snd (simulate_data mid count uniform s))))"
  then have "r \<in> set (drop (length (read_sql s)) (fold sql_insert ?db (read_sql s)))"
    by (simp add: read_sql_simulate_data)
  then have "IoTMachineData.truncate r \<in>
      set (map IoTMachineData.truncate (drop (length (read_sql s)) (fold sql_insert ?db (read_sql s))))"
    by simp
  then have "IoTMachineData.truncate r \<in> set ?db"
    by (simp only: new_rows_truncate)
  then obtain i where e: "IoTMachineData.truncate r = simulated_entry mid uniform i"
    by auto
  have "status r =
     (if 90 < temperature r \<or> py_float_0_08 < vibration r \<or> pressure r < 28
      then ''FAIL'' else ''OK'')"
    using simulated_entry_status [of mid uniform i] by (simp add: truncate_fields flip: e)
  then show "(status r = ''FAIL'' \<longleftrightarrow>
        90 < temperature r \<or> py_float_0_08 < vibration r \<or> pressure r < 28) \<and>
     (status r = ''OK'' \<longleftrightarrow>
        temperature r \<le> 90 \<and> vibration r \<le> py_float_0_08 \<and> 28 \<le> pressure r)"
    by (auto simp: not_less)
qed

theorem simulate_data_status_rule_witness:
  "drop (length (read_sql init_state))
      (read_sql (snd (simulate_data ''m1'' 1 boundary_uniform init_state))) =
     [\<lparr>machine_id = ''m1'', temperature = 90, vibration = py_float_0_08, pressure = 28,
       status = ''OK'', row_id = 1\<rparr>] \<and>
   map status (drop (length (read_sql init_state))
      (read_sql (snd (simulate_data ''m1'' 2 sample_uniform init_state)))) = [''FAIL'', ''OK'']"
  using simulate_data_status_rule [of init_state "''m1''" 1 boundary_uniform]
  by (simp add: boundary_rows sample_rows read_sql_init)

text \<open>
  C8, as amended. For every machine_id and every integer count, simulate_data leaves the
  rows already stored in place and appends exactly max(count, 0) new rows, every one
  with the given machine_id (exactly count rows when count is not negative, none when
  it is negative); it returns only the confirmation message, which mentions count, and
  it leaves the model file alone.
\<close>

theorem simulate_data_adds_records:
  "let (resp, s') = simulate_data mid count uniform s;
       new = drop (length (read_sql s)) (read_sql s')
   in take (length (read_sql s)) (read_sql s') = read_sql s \<and>
      int (length new) = max count 0 \<and>
      map machine_id new = replicate (nat count) mid \<and>
      resp = [(''message'',
               str_int count @ '' simulated IoT records added for machine '' @ mid)] \<and>
      model_file s' = model_file s"
proof -
  let ?db = "map (simulated_entry mid uniform) [0..<nat count]"
  have rows: "read_sql (snd (simulate_data mid count uniform s)) = fold sql_insert ?db (read_sql s)"
    by (rule read_sql_simulate_data)
  have old: "take (length (read_sql s)) (fold sql_insert ?db (read_sql s)) = read_sql s"
    by (rule fold_sql_insert_prefix)
  have len: "int (length (drop (length (read_sql s)) (fold sql_insert ?db (read_sql s)))) = max count 0"
    by (simp add: fold_sql_insert_length)
  have mids: "map machine_id (drop (length (read_sql s)) (fold sql_insert ?db (read_sql s)))
              = replicate (nat count) mid"
    by (simp add: new_rows_machine_id simulated_entry_machine_id o_def map_replicate_const)
  have resp: "fst (simulate_data mid count uniform s) =
      [(''message'', str_int count @ '' simulated IoT records added for machine '' @ mid)]"
    by (simp add: simulate_data_def Let_def)
  have mfile: "model_file (snd (simulate_data mid count uniform s)) = model_file s"
    by (simp add: simulate_data_def Let_def db_commit_def)
  show ?thesis
    unfolding Let_def case_prod_beta rows
    using old len mids resp mfile by (simp add: rows)
qed

text \<open>
  C8 as stated fails for a negative count: with count = -1 the store gains no row, and
  0 new rows are not -1 new rows.
\<close>

theorem simulate_data_negative_count:
  "length (read_sql (snd (simulate_data ''m1'' (- 1) sample_uniform init_state))) =
     length (read_sql init_state) \<and>
   int (length (read_sql (snd (simulate_data ''m1'' (- 1) sample_uniform init_state)))) -
     int (length (read_sql init_state)) \<noteq> - 1"
  by (simp add: read_sql_simulate_data read_sql_init)

text \<open>
  C2, as amended. When train() persists a newly fitted classifier it overwrites the
  model file in place, with no temporary file and no rename. On a non-empty store on
  which the fit returns a model: when nothing fails the file holds exactly the pickle of
  the new model and train() reports success; when the file cannot be opened train()
  raises and the state, the old model file included, is unchanged; when the write fails
  after the file was opened, train() raises and the file holds only the bytes of the new
  pickle written so far, the old contents being lost at the opening; a failure placed
  beyond the end of the pickle never happens.
\<close>

theorem train_model_file_write:
  "read_sql s \<noteq> [] \<Longrightarrow>
   fit lib (train_X (read_sql s)) (train_y (read_sql s)) = Inr model \<Longrightarrow>
   train lib NoFault s =
     (Inr [(''message'', ''Model trained successfully'')],
      s\<lparr>model_file := Some (pickle_dumps lib model)\<rparr>) \<and>
   train lib OpenFails s = (Inl OSError, s) \<and>
   (k < length (pickle_dumps lib model) \<longrightarrow>
      train lib (WriteFailsAfter k) s =
        (Inl OSError, s\<lparr>model_file := Some (take k (pickle_dumps lib model))\<rparr>)) \<and>
   (length (pickle_dumps lib model) \<le> k \<longrightarrow>
      train lib (WriteFailsAfter k) s =
        (Inr [(''message'', ''Model trained successfully'')],
         s\<lparr>model_file := Some (pickle_dumps lib model)\<rparr>))"
  by (simp add: train_def train_model_def open_wb_dump_def)

theorem train_model_file_write_witness:
  "read_sql trained_state \<noteq> [] \<and>
   fit sample_library (train_X (read_sql trained_state)) (train_y (read_sql trained_state)) = Inr () \<and>
   train sample_library NoFault trained_state =
     (Inr [(''message'', ''Model trained successfully'')], trained_state) \<and>
   train sample_library OpenFails trained_state = (Inl OSError, trained_state) \<and>
   train sample_library (WriteFailsAfter 2) trained_state =
     (Inl OSError, trained_state\<lparr>model_file := Some ''ne''\<rparr>) \<and>
   train sample_library (WriteFailsAfter 3) trained_state =
     (Inr [(''message'', ''Model trained successfully'')], trained_state)"
proof -
  have h1: "read_sql trained_state \<noteq> []"
    by (simp add: trained_state_eq read_sql_def)
  have h2: "fit sample_library (train_X (read_sql trained_state))
      (train_y (read_sql trained_state)) = Inr ()"
    by (simp add: trained_state_eq read_sql_def train_y_def sample_library_def)
  have d: "pickle_dumps sample_library () = ''new''"
    by (simp add: sample_library_def)
  show ?thesis
    using h1 h2 train_model_file_write [OF h1 h2, of 2] train_model_file_write [OF h1 h2, of 3]
    by (simp add: d trained_state_eq)
qed

text \<open>
  C2 as stated fails: from a state with a model file that predict can load, a training
  run whose write fails after one byte raises and leaves a file that is neither the old
  model nor the new one; predict then raises while unpickling it.
\<close>

theorem train_write_failure_loses_model:
  "model_file trained_state = Some ''new'' \<and>
   predict sample_library 95 (9 / 100) 20 trained_state = Inr [(''prediction'', ''FAIL'')] \<and>
   train sample_library (WriteFailsAfter 1) trained_state =
     (Inl OSError, trained_state\<lparr>model_file := Some ''n''\<rparr>) \<and>
   model_file (snd (train sample_library (WriteFailsAfter 1) trained_state)) \<noteq>
     model_file trained_state \<and>
   predict sample_library 95 (9 / 100) 20
     (snd (train sample_library (WriteFailsAfter 1) trained_state)) = Inl UnpicklingError"
  by (simp add: trained_state_eq train_def train_model_def read_sql_def train_X_def train_y_def
      sample_library_def open_wb_dump_def predict_def load_model_def)

text \<open>
  C4. The status of every stored record is one of the two labels OK and FAIL in every
  reachable state, and add_data and simulate_data preserve this. The code breaks it:
  add_data stores the status string it receives without any check, so one request with
  the status fail reaches, from the empty store, a state holding a record whose status is
  neither label.
\<close>

theorem add_data_unvalidated_status:
  "\<not> status_is_enum (run sample_library [AddData ''1'' 75 (2 / 100) 30 ''fail''] init_state)"
  by (simp add: run_def status_is_enum_def read_sql_add_data sql_insert_def flush_row_def
      read_sql_init)

text \<open>
  C9. For every non-empty dataset in which all labels are identical (every status is
  FAIL, or none is), the label vector is constant and train() still calls the fit, with no
  check of the labels: it never answers "no data available"; when the fit raises, the
  same exception leaves train() and the state is unchanged; when the fit returns a model,
  train() stores it and reports success.
\<close>

theorem train_single_class_naive_fit:
  assumes "read_sql s \<noteq> []"
    and "(\<forall>r \<in> set (read_sql s). status r = ''FAIL'') \<or>
         (\<forall>r \<in> set (read_sql s). status r \<noteq> ''FAIL'')"
  shows "train_y (read_sql s) =
           replicate (length (read_sql s)) (if status (hd (read_sql s)) = ''FAIL'' then 1 else 0) \<and>
         fst (train lib io s) \<noteq> Inr [(''message'', ''No data available to train'')] \<and>
         (\<forall>e. fit lib (train_X (read_sql s)) (train_y (read_sql s)) = Inl e \<longrightarrow>
            train lib io s = (Inl e, s)) \<and>
         (\<forall>model. fit lib (train_X (read_sql s)) (train_y (read_sql s)) = Inr model \<longrightarrow>
            train lib NoFault s =
              (Inr [(''message'', ''Model trained successfully'')],
               s\<lparr>model_file := Some (pickle_dumps lib model)\<rparr>))"
proof (intro conjI allI impI)
  from assms(1) have hd_in: "hd (read_sql s) \<in> set (read_sql s)"
    by simp
  have "map (\<lambda>r. if status r = ''FAIL'' then 1 else (0::int)) (read_sql s) =
        map (\<lambda>r. if status (hd (read_sql s)) = ''FAIL'' then 1 else 0) (read_sql s)"
    using assms(2) hd_in by (intro map_cong) auto
  then show "train_y (read_sql s) =
      replicate (length (read_sql s)) (if status (hd (read_sql s)) = ''FAIL'' then 1 else 0)"
    by (simp add: train_y_def o_def map_replicate_const)
next
  show "fst (train lib io s) \<noteq> Inr [(''message'', ''No data available to train'')]"
  proof (cases "fit lib (train_X (read_sql s)) (train_y (read_sql s))")
    case (Inl e)
    with assms(1) show ?thesis
      by (simp add: train_def train_model_def)
  next
    case (Inr model)
    with assms(1) show ?thesis
      by (cases io) (simp_all add: train_def train_model_def open_wb_dump_def)
  qed
next
  fix e
  assume "fit lib (train_X (read_sql s)) (train_y (read_sql s)) = Inl e"
  with assms(1) show "train lib io s = (Inl e, s)"
    by (simp add: train_def train_model_def)
next
  fix model
  assume "fit lib (train_X (read_sql s)) (train_y (read_sql s)) = Inr model"
  with assms(1) show "train lib NoFault s =
      (Inr [(''message'', ''Model trained successfully'')],
       s\<lparr>model_file := Some (pickle_dumps lib model)\<rparr>)"
    by (simp add: train_def train_model_def open_wb_dump_def)
qed

theorem train_single_class_naive_fit_witness:
  "map status (read_sql (run sample_library
     [AddData ''1'' 95 (9 / 100) 20 ''FAIL'', AddData ''1'' 96 (1 / 100) 35 ''FAIL''] init_state))
     = [''FAIL'', ''FAIL''] \<and>
   train_y (read_sql (run sample_library
     [AddData ''1'' 95 (9 / 100) 20 ''FAIL'', AddData ''1'' 96 (1 / 100) 35 ''FAIL''] init_state))
     = [1, 1] \<and>
   train sample_library NoFault (run sample_library
     [AddData ''1'' 95 (9 / 100) 20 ''FAIL'', AddData ''1'' 96 (1 / 100) 35 ''FAIL''] init_state) =
     (Inl ValueError, run sample_library
       [AddData ''1'' 95 (9 / 100) 20 ''FAIL'', AddData ''1'' 96 (1 / 100) 35 ''FAIL''] init_state)"
proof -
  let ?s = "run sample_library
     [AddData ''1'' 95 (9 / 100) 20 ''FAIL'', AddData ''1'' 96 (1 / 100) 35 ''FAIL''] init_state"
  have h1: "read_sql ?s \<noteq> []"
    by (simp add: all_fail_state read_sql_def)
  have h2: "(\<forall>r \<in> set (read_sql ?s). status r = ''FAIL'') \<or>
            (\<forall>r \<in> set (read_sql ?s). status r \<noteq> ''FAIL'')"
    by (simp add: all_fail_state read_sql_def)
  have f: "fit sample_library (train_X (read_sql ?s)) (train_y (read_sql ?s)) = Inl ValueError"
    by (simp add: all_fail_state read_sql_def train_y_def sample_library_def)
  show ?thesis
    using train_single_class_naive_fit [OF h1 h2, of sample_library NoFault] f
    by (simp add: all_fail_state read_sql_def)
qed

text \<open>
  C10. In the label vector of the training set, a record is mapped to 1 exactly when its
  status is the string FAIL and to 0 otherwise, in the row order of the read; add_data
  stores any status string and the label of the record it adds is 1 only for FAIL, so
  fail, Ok and every other string count as the OK class.
\<close>

theorem train_y_exact_FAIL:
  "train_y (read_sql (snd (add_data mid t v p st s))) =
     train_y (read_sql s) @ [if st = ''FAIL'' then 1 else 0] \<and>
   length (train_y rows) = length rows \<and>
   (\<forall>i < length rows.
      train_y rows ! i = (if status (rows ! i) = ''FAIL'' then 1 else 0))"
  by (simp add: train_y_def read_sql_add_data sql_insert_def flush_row_def)

theorem train_y_exact_FAIL_witness:
  "train_y (read_sql (run sample_library
      [AddData ''1'' 95 (9 / 100) 20 ''FAIL'', AddData ''1'' 95 (9 / 100) 20 ''fail'',
       AddData ''1'' 95 (9 / 100) 20 ''Ok'', AddData ''1'' 75 (2 / 100) 30 ''OK'',
       AddData ''1'' 95 (9 / 100) 20 ''anything'']
      init_state)) = [1, 0, 0, 0, 0]"
  using train_y_exact_FAIL [of "''1''" 95 "9 / 100" 20 "''fail''" init_state "[]"]
  by (simp add: run_def train_y_def read_sql_add_data sql_insert_def flush_row_def read_sql_init)

end
